theory Spec2Isabelle
  imports Main
begin

section \<open>Go strings, slices and panics\<close>

text \<open>
  A Go \<^verbatim>\<open>string\<close> is a read-only sequence of bytes: \<^verbatim>\<open>len(s)\<close> is the number of
  bytes and \<^verbatim>\<open>s[lo:hi]\<close> cuts at byte offsets. The model uses \<^typ>\<open>string\<close>, a list
  of 8-bit characters, so \<^const>\<open>length\<close> is Go's \<^verbatim>\<open>len\<close>. Go's \<^verbatim>\<open>int\<close> is modelled by
  \<^typ>\<open>int\<close>: the code below only compares and slices with it, no arithmetic is done
  on it, so no wrap-around can occur.

  A slice expression whose bounds are not \<^verbatim>\<open>0 <= lo <= hi <= len(s)\<close> panics at run
  time; the panic is a value of the model.
\<close>

datatype panic = SliceBoundsOutOfRange

text \<open>\<^verbatim>\<open>s[lo:]\<close>\<close>

definition slice_from :: "string \<Rightarrow> int \<Rightarrow> panic + string" where
  "slice_from s lo =
     (if lo < 0 \<or> int (length s) < lo then Inl SliceBoundsOutOfRange
      else Inr (drop (nat lo) s))"

text \<open>\<^verbatim>\<open>s[:hi]\<close>\<close>

definition slice_to :: "string \<Rightarrow> int \<Rightarrow> panic + string" where
  "slice_to s hi =
     (if hi < 0 \<or> int (length s) < hi then Inl SliceBoundsOutOfRange
      else Inr (take (nat hi) s))"

section \<open>Package processor: FormatContent\<close>

text \<open>
  The literal appended on truncation,
  \<^verbatim>\<open>"\n\n[Content truncated. Use start_index to get more content.]"\<close>.
\<close>

definition truncation_marker :: string where
  "truncation_marker =
     [CHR 0x0A, CHR 0x0A] @ ''[Content truncated. Use start_index to get more content.]''"

text \<open>
  \<^verbatim>\<open>
  func (*ContentProcessor) FormatContent(content string, startIndex, maxLength *int) string {
      start := 0
      if startIndex != nil { start = *startIndex }
      if start > len(content) { start = len(content) }
      content = content[start:]
      if maxLength != nil && len(content) > *maxLength {
          content = content[:*maxLength]
          content += "\n\n[Content truncated. Use start_index to get more content.]"
      }
      return content
  }
  \<close>
  A nil pointer is \<^const>\<open>None\<close>.
\<close>

definition FormatContent :: "string \<Rightarrow> int option \<Rightarrow> int option \<Rightarrow> panic + string" where
  "FormatContent content startIndex maxLength =
     (let start = (case startIndex of None \<Rightarrow> 0 | Some i \<Rightarrow> i);
          start = (if start > int (length content) then int (length content) else start)
      in case slice_from content start of
           Inl p \<Rightarrow> Inl p
         | Inr content \<Rightarrow>
             (case maxLength of
                None \<Rightarrow> Inr content
              | Some m \<Rightarrow>
                  if int (length content) > m then
                    (case slice_to content m of
                       Inl p \<Rightarrow> Inl p
                     | Inr content \<Rightarrow> Inr (content @ truncation_marker))
                  else Inr content))"

section \<open>Code points and their UTF-8 bytes\<close>

text \<open>
  The bytes of a Go string are, by convention and for every string literal and every
  text body, the UTF-8 encoding of its code points. \<open>utf8_rune\<close> encodes one code point
  (as \<^verbatim>\<open>utf8.AppendRune\<close> does for a valid one) and \<open>utf8\<close> a sequence of them.
\<close>

definition utf8_rune :: "nat \<Rightarrow> string" where
  "utf8_rune cp =
     (if cp < 0x80 then [char_of cp]
      else if cp < 0x800 then
        [char_of (0xC0 + cp div 0x40), char_of (0x80 + cp mod 0x40)]
      else if cp < 0x10000 then
        [char_of (0xE0 + cp div 0x1000), char_of (0x80 + cp div 0x40 mod 0x40),
         char_of (0x80 + cp mod 0x40)]
      else
        [char_of (0xF0 + cp div 0x40000), char_of (0x80 + cp div 0x1000 mod 0x40),
         char_of (0x80 + cp div 0x40 mod 0x40), char_of (0x80 + cp mod 0x40)])"

definition utf8 :: "nat list \<Rightarrow> string" where
  "utf8 cps = concat (map utf8_rune cps)"

text \<open>
  The Paginator as the specification words it, over the content as a sequence of code
  points: the start index is clamped into \<open>[0, length content]\<close>; when a limit is set and
  the content left after the start offset has more code points than the limit, it is cut
  to exactly that many code points and the marker is appended. The result is given as
  the bytes of the text, to be compared with what \<open>FormatContent\<close> returns.
\<close>

definition Slice :: "nat list \<Rightarrow> int option \<Rightarrow> int option \<Rightarrow> string" where
  "Slice content startIndex maxLength =
     (let start = (case startIndex of None \<Rightarrow> 0
                   | Some i \<Rightarrow> max 0 (min i (int (length content))));
          rest = drop (nat start) content
      in case maxLength of
           None \<Rightarrow> utf8 rest
         | Some m \<Rightarrow>
             if int (length rest) > m then utf8 (take (nat m) rest) @ truncation_marker
             else utf8 rest)"

section \<open>Package processor: ProcessHTML\<close>

text \<open>
  ProcessHTML calls three functions of other modules: \<^verbatim>\<open>html.Parse\<close>
  (golang.org/x/net/html), \<^verbatim>\<open>readability.FromDocument\<close> (go-shiori/go-readability)
  and \<^verbatim>\<open>htmltomarkdown.ConvertString\<close> (html-to-markdown/v2). They are parameters of
  the model; each returns its error (\<^const>\<open>Inl\<close>, with the error text) or its result.
  Of the article that readability returns only the field \<^verbatim>\<open>Content\<close> is read.
\<close>

record 'doc html_packages =
  html_Parse :: "string \<Rightarrow> string + 'doc"
  readability_FromDocument :: "'doc \<Rightarrow> string + string"
  htmltomarkdown_ConvertString :: "string \<Rightarrow> string + string"

text \<open>
  \<^verbatim>\<open>
  func (p *ContentProcessor) ProcessHTML(htmlContent string) string {
      doc, err := html.Parse(strings.NewReader(htmlContent))
      if err != nil { return htmlContent }
      article, err := readability.FromDocument(doc, nil)
      if err == nil && article.Content != "" { htmlContent = article.Content }
      markdown, err := htmltomarkdown.ConvertString(htmlContent)
      if err != nil { return htmlContent }
      return markdown
  }
  \<close>
\<close>

definition ProcessHTML :: "'doc html_packages \<Rightarrow> string \<Rightarrow> string" where
  "ProcessHTML P htmlContent =
     (case html_Parse P htmlContent of
        Inl err \<Rightarrow> htmlContent
      | Inr doc \<Rightarrow>
          (let htmlContent =
                 (case readability_FromDocument P doc of
                    Inl err \<Rightarrow> htmlContent
                  | Inr article_Content \<Rightarrow>
                      if article_Content \<noteq> [] then article_Content else htmlContent)
           in case htmltomarkdown_ConvertString P htmlContent of
                Inl err \<Rightarrow> htmlContent
              | Inr markdown \<Rightarrow> markdown))"

section \<open>Package robots\<close>

record Checker =
  ignoreRobots :: bool
  policy_allows :: "string \<Rightarrow> bool"

text \<open>
  Modelled from the spec: package robots (\<^verbatim>\<open>robots.Checker\<close>, \<^verbatim>\<open>NewChecker\<close> and
  \<^verbatim>\<open>IsAllowed\<close>) is not among the sources; only its uses are
  (\<^verbatim>\<open>robots.NewChecker(cfg.UserAgent, cfg.IgnoreRobots, client)\<close> and
  \<^verbatim>\<open>f.robotsChecker.IsAllowed(req.URL)\<close>). The specification says: "When a bypass
  flag is configured, always returns true without any network access. Otherwise:
  resolve the URL's Origin; [...] evaluate against [the policy]". The evaluation of
  the origin's policy, with its cache and its fetch of robots.txt, is the field
  \<open>policy_allows\<close>.
\<close>

definition IsAllowed :: "Checker \<Rightarrow> string \<Rightarrow> bool" where
  "IsAllowed c url = (if ignoreRobots c then True else policy_allows c url)"

section \<open>Package fetcher\<close>

subsection \<open>The HTTP client\<close>

text \<open>
  What the fetcher uses of \<^verbatim>\<open>net/http\<close>. A request has a method, a URL and headers;
  \<^verbatim>\<open>Header.Set\<close> replaces the values of a key. Of a response the code reads
  \<^verbatim>\<open>StatusCode\<close>, \<^verbatim>\<open>Status\<close>, \<^verbatim>\<open>Header.Get("Content-Type")\<close> and the body, whose
  reading by \<^verbatim>\<open>io.ReadAll\<close> gives an error or the bytes.
\<close>

record Request =
  Method :: string
  RequestURL :: string
  Header :: "(string \<times> string) list"

definition Header_Set :: "string \<Rightarrow> string \<Rightarrow> Request \<Rightarrow> Request" where
  "Header_Set key val req =
     req\<lparr>Header := filter (\<lambda>kv. fst kv \<noteq> key) (Header req) @ [(key, val)]\<rparr>"

record Response =
  StatusCode :: int
  Status :: string
  ContentType :: string
  Body :: "string + string"

text \<open>
  The client and the network behind it: \<open>NewRequest_error\<close> is the error of
  \<^verbatim>\<open>http.NewRequest("GET", url, nil)\<close>, if any, and \<open>Do\<close> is \<^verbatim>\<open>httpClient.Do\<close>,
  which returns an error or the response.
\<close>

record Client =
  NewRequest_error :: "string \<Rightarrow> string option"
  Do :: "Request \<Rightarrow> string + Response"

subsection \<open>Errors, events and strings\<close>

text \<open>
  The errors FetchURL returns are built by \<^verbatim>\<open>fmt.Errorf\<close>; each constructor stands for
  one format string and holds its arguments. \<open>Error\<close> is the message.
\<close>

datatype error =
    RobotsDisallowed string
  | CreateRequestFailed string
  | FetchFailed string
  | HTTPStatus int string
  | ReadBodyFailed string

fun decimal :: "nat \<Rightarrow> string" where
  "decimal n =
     (if n < 10 then [char_of (48 + n)]
      else decimal (n div 10) @ [char_of (48 + n mod 10)])"

definition Itoa :: "int \<Rightarrow> string" where
  "Itoa i = (if i < 0 then CHR ''-'' # decimal (nat (- i)) else decimal (nat i))"

fun Error :: "error \<Rightarrow> string" where
  "Error (RobotsDisallowed url) = ''access to '' @ url @ '' is disallowed by robots.txt''"
| "Error (CreateRequestFailed err) = ''failed to create request: '' @ err"
| "Error (FetchFailed err) = ''failed to fetch URL: '' @ err"
| "Error (HTTPStatus code status) = ''HTTP '' @ Itoa code @ '': '' @ status"
| "Error (ReadBodyFailed err) = ''failed to read response body: '' @ err"

text \<open>
  The effects a claim speaks of are recorded as events, in order: a request handed to
  \<^verbatim>\<open>httpClient.Do\<close> by fetchURL (the content request), and a call of ProcessHTML.
  Logging and metrics do not change what is returned and are left out.
\<close>

datatype event = HTTPDo Request | HTMLProcessed string

text \<open>\<^verbatim>\<open>strings.HasPrefix\<close> and \<^verbatim>\<open>strings.Contains\<close>\<close>

definition HasPrefix :: "string \<Rightarrow> string \<Rightarrow> bool" where
  "HasPrefix s p = (take (length p) s = p)"

fun Contains :: "string \<Rightarrow> string \<Rightarrow> bool" where
  "Contains [] substr = (substr = [])"
| "Contains (c # s) substr = (HasPrefix (c # s) substr \<or> Contains s substr)"

subsection \<open>HTTPFetcher\<close>

text \<open>
  The fields \<^verbatim>\<open>processor\<close> (an empty struct) and \<^verbatim>\<open>metrics\<close> carry nothing the
  result depends on.
\<close>

record HTTPFetcher =
  httpClient :: Client
  robotsChecker :: Checker
  userAgent :: string

record FetchRequest =
  URL :: string
  MaxLength :: "int option"
  StartIndex :: "int option"
  Raw :: bool

text \<open>
  The request fetchURL builds:
  \<^verbatim>\<open>
  req, err := http.NewRequest("GET", url, nil)
  req.Header.Set("User-Agent", f.userAgent)
  req.Header.Set("Accept", "text/html,application/xhtml+xml,application/xml;q=0.9,*/*;q=0.8")
  \<close>
\<close>

definition content_request :: "HTTPFetcher \<Rightarrow> string \<Rightarrow> Request" where
  "content_request f url =
     Header_Set ''Accept'' ''text/html,application/xhtml+xml,application/xml;q=0.9,*/*;q=0.8''
       (Header_Set ''User-Agent'' (userAgent f)
          \<lparr>Method = ''GET'', RequestURL = url, Header = []\<rparr>)"

text \<open>
  \<^verbatim>\<open>
  func (f *HTTPFetcher) fetchURL(url string, raw bool) (string, error) {
      req, err := http.NewRequest("GET", url, nil)
      if err != nil { return "", fmt.Errorf("failed to create request: %v", err) }
      ...
      resp, err := f.httpClient.Do(req)
      if err != nil { return "", fmt.Errorf("failed to fetch URL: %v", err) }
      if resp.StatusCode != http.StatusOK {
          return "", fmt.Errorf("HTTP %d: %s", resp.StatusCode, resp.Status)
      }
      body, err := io.ReadAll(resp.Body)
      if err != nil { return "", fmt.Errorf("failed to read response body: %v", err) }
      content := string(body)
      if !raw && strings.Contains(resp.Header.Get("Content-Type"), "text/html") {
          processedContent := f.processor.ProcessHTML(content)
          content = processedContent
      }
      return content, nil
  }
  \<close>
  Go returns the pair of a string and an error, the nil error being \<^const>\<open>None\<close>; the
  model returns that pair and the events of the call.
\<close>

definition fetchURL ::
  "'doc html_packages \<Rightarrow> HTTPFetcher \<Rightarrow> string \<Rightarrow> bool \<Rightarrow> (string \<times> error option) \<times> event list" where
  "fetchURL P f url raw =
     (case NewRequest_error (httpClient f) url of
        Some err \<Rightarrow> (([], Some (CreateRequestFailed err)), [])
      | None \<Rightarrow>
          (let req = content_request f url in
           case Do (httpClient f) req of
             Inl err \<Rightarrow> (([], Some (FetchFailed err)), [HTTPDo req])
           | Inr resp \<Rightarrow>
               if StatusCode resp \<noteq> 200 then
                 (([], Some (HTTPStatus (StatusCode resp) (Status resp))), [HTTPDo req])
               else
                 (case Body resp of
                    Inl err \<Rightarrow> (([], Some (ReadBodyFailed err)), [HTTPDo req])
                  | Inr body \<Rightarrow>
                      if \<not> raw \<and> Contains (ContentType resp) ''text/html'' then
                        ((ProcessHTML P body, None), [HTTPDo req, HTMLProcessed body])
                      else ((body, None), [HTTPDo req]))))"

text \<open>
  \<^verbatim>\<open>
  func (f *HTTPFetcher) FetchURL(req *FetchRequest) (string, error) {
      if !f.robotsChecker.IsAllowed(req.URL) {
          return "", fmt.Errorf("access to %s is disallowed by robots.txt", req.URL)
      }
      content, err := f.fetchURL(req.URL, req.Raw)
      if err != nil { return "", err }
      formattedContent := f.processor.FormatContent(content, req.StartIndex, req.MaxLength)
      return formattedContent, nil
  }
  \<close>
  A panic of FormatContent is a panic of FetchURL.
\<close>

definition FetchURL ::
  "'doc html_packages \<Rightarrow> HTTPFetcher \<Rightarrow> FetchRequest
     \<Rightarrow> (panic + string \<times> error option) \<times> event list" where
  "FetchURL P f req =
     (if \<not> IsAllowed (robotsChecker f) (URL req) then
        (Inr ([], Some (RobotsDisallowed (URL req))), [])
      else
        (case fetchURL P f (URL req) (Raw req) of
           ((content, Some err), events) \<Rightarrow> (Inr ([], Some err), events)
         | ((content, None), events) \<Rightarrow>
             (case FormatContent content (StartIndex req) (MaxLength req) of
                Inl p \<Rightarrow> (Inl p, events)
              | Inr formattedContent \<Rightarrow> (Inr (formattedContent, None), events))))"

section \<open>Example environments\<close>

text \<open>
  Concrete packages, responses and fetchers, on which the theorems below are
  instantiated. They are inputs of the model, not part of the program. The document
  type of the example packages is \<^typ>\<open>string\<close>: parsing keeps the text.
\<close>

definition packages_ok :: "string html_packages" where
  "packages_ok =
     \<lparr>html_Parse = (\<lambda>h. Inr h),
      readability_FromDocument = (\<lambda>doc. Inr ''<p>Body text</p>''),
      htmltomarkdown_ConvertString = (\<lambda>h. Inr ''Body text'')\<rparr>"

definition packages_parse_fails :: "string html_packages" where
  "packages_parse_fails = packages_ok\<lparr>html_Parse := (\<lambda>h. Inl ''unexpected EOF'')\<rparr>"

definition packages_readability_fails :: "string html_packages" where
  "packages_readability_fails =
     packages_ok\<lparr>readability_FromDocument := (\<lambda>doc. Inl ''failed to parse document'')\<rparr>"

definition packages_all_fail :: "string html_packages" where
  "packages_all_fail =
     packages_readability_fails\<lparr>htmltomarkdown_ConvertString := (\<lambda>h. Inl ''conversion failed'')\<rparr>"

definition response_200 :: "string \<Rightarrow> string \<Rightarrow> Response" where
  "response_200 contentType body =
     \<lparr>StatusCode = 200, Status = ''200 OK'', ContentType = contentType, Body = Inr body\<rparr>"

definition response_404 :: Response where
  "response_404 =
     \<lparr>StatusCode = 404, Status = ''404 Not Found'', ContentType = ''text/html'',
      Body = Inr ''<h1>Not Found</h1>''\<rparr>"

text \<open>
  A fetcher whose client answers every request with the given response, and whose
  robots policy is that of \<^verbatim>\<open>"User-agent: *\nDisallow: /private"\<close> on the origin
  \<^verbatim>\<open>https://example.com\<close>.
\<close>

definition no_private :: "string \<Rightarrow> bool" where
  "no_private url = (\<not> HasPrefix url ''https://example.com/private'')"

definition fetcher_answering :: "bool \<Rightarrow> Response \<Rightarrow> HTTPFetcher" where
  "fetcher_answering ignore resp =
     \<lparr>httpClient = \<lparr>NewRequest_error = (\<lambda>url. None), Do = (\<lambda>req. Inr resp)\<rparr>,
      robotsChecker = \<lparr>ignoreRobots = ignore, policy_allows = no_private\<rparr>,
      userAgent = ''gofetch''\<rparr>"

definition request_for :: "string \<Rightarrow> bool \<Rightarrow> FetchRequest" where
  "request_for url raw = \<lparr>URL = url, MaxLength = None, StartIndex = None, Raw = raw\<rparr>"

section \<open>Properties of FormatContent\<close>

lemma length_truncation_marker: "length truncation_marker = 59"
  by (simp add: truncation_marker_def)

text \<open>
  For a start index that is absent or non-negative and a limit that is absent or
  non-negative no slice expression is out of range, and the result is the rest of the
  content after the start offset, cut and marked when it is longer than the limit.
\<close>

lemma FormatContent_valid:
  assumes "case startIndex of None \<Rightarrow> True | Some i \<Rightarrow> 0 \<le> i"
    and "case maxLength of None \<Rightarrow> True | Some m \<Rightarrow> 0 \<le> m"
  shows "FormatContent content startIndex maxLength =
     Inr (let rest = drop (nat (case startIndex of None \<Rightarrow> 0 | Some i \<Rightarrow> i)) content
          in case maxLength of None \<Rightarrow> rest
             | Some m \<Rightarrow> if m < int (length rest) then take (nat m) rest @ truncation_marker else rest)"
  using assms
  by (auto simp: FormatContent_def slice_from_def slice_to_def Let_def split: option.splits)

lemma all_Some_case: "(\<forall>i. x = Some i \<longrightarrow> P i) = (case x of None \<Rightarrow> True | Some i \<Rightarrow> P i)"
  by (cases x) simp_all

subsection \<open>The truncation marker\<close>

text \<open>
  \<^verbatim>\<open>FormatContent("abcdefghij", 0, 5)\<close> is \<^verbatim>\<open>"abcde"\<close> followed by the marker. No marker
  is appended when no limit is given, or when the bytes left after the start offset are
  no more than the limit: the result is then exactly that rest.
\<close>

lemma FormatContent_marker_bytes:
  "FormatContent ''abcdefghij'' (Some 0) (Some 5) =
     Inr (''abcde'' @ [CHR 0x0A, CHR 0x0A] @ ''[Content truncated. Use start_index to get more content.]'')
   \<and> ((\<forall>i. startIndex = Some i \<longrightarrow> 0 \<le> i) \<longrightarrow>
        FormatContent content startIndex None =
          Inr (drop (nat (case startIndex of None \<Rightarrow> 0 | Some i \<Rightarrow> i)) content))
   \<and> ((\<forall>i. startIndex = Some i \<longrightarrow> 0 \<le> i) \<and> 0 \<le> m
        \<and> int (length (drop (nat (case startIndex of None \<Rightarrow> 0 | Some i \<Rightarrow> i)) content)) \<le> m \<longrightarrow>
        FormatContent content startIndex (Some m) =
          Inr (drop (nat (case startIndex of None \<Rightarrow> 0 | Some i \<Rightarrow> i)) content))"
proof (intro conjI impI)
  show "FormatContent ''abcdefghij'' (Some 0) (Some 5) =
     Inr (''abcde'' @ [CHR 0x0A, CHR 0x0A] @ ''[Content truncated. Use start_index to get more content.]'')"
    by (simp add: FormatContent_def slice_from_def slice_to_def truncation_marker_def)
next
  assume "\<forall>i. startIndex = Some i \<longrightarrow> 0 \<le> i"
  then have i: "case startIndex of None \<Rightarrow> True | Some i \<Rightarrow> 0 \<le> i"
    by (simp add: all_Some_case)
  show "FormatContent content startIndex None =
          Inr (drop (nat (case startIndex of None \<Rightarrow> 0 | Some i \<Rightarrow> i)) content)"
    using FormatContent_valid [OF i, of None content] by simp
next
  assume h: "(\<forall>i. startIndex = Some i \<longrightarrow> 0 \<le> i) \<and> 0 \<le> m
        \<and> int (length (drop (nat (case startIndex of None \<Rightarrow> 0 | Some i \<Rightarrow> i)) content)) \<le> m"
  then have i: "case startIndex of None \<Rightarrow> True | Some i \<Rightarrow> 0 \<le> i"
    by (simp add: all_Some_case)
  from h have m: "case Some m of None \<Rightarrow> True | Some m \<Rightarrow> 0 \<le> m" by simp
  from h have fits: "\<not> m < int (length (drop (nat (case startIndex of None \<Rightarrow> 0 | Some i \<Rightarrow> i)) content))"
    by linarith
  show "FormatContent content startIndex (Some m) =
          Inr (drop (nat (case startIndex of None \<Rightarrow> 0 | Some i \<Rightarrow> i)) content)"
    unfolding FormatContent_valid [OF i m] Let_def using fits by simp
qed

subsection \<open>Totality\<close>

text \<open>
  Claim C8. For every content, every start index that is absent or non-negative and
  every limit that is absent or positive, FormatContent does not panic: it returns a
  string.
\<close>

theorem FormatContent_total:
  assumes "\<forall>i. startIndex = Some i \<longrightarrow> 0 \<le> i" and "\<forall>m. maxLength = Some m \<longrightarrow> 0 < m"
  shows "\<exists>text. FormatContent content startIndex maxLength = Inr text"
proof -
  have i: "case startIndex of None \<Rightarrow> True | Some i \<Rightarrow> 0 \<le> i"
    using assms(1) by (simp add: all_Some_case)
  have m: "case maxLength of None \<Rightarrow> True | Some m \<Rightarrow> 0 \<le> m"
    using assms(2) by (cases maxLength) simp_all
  show ?thesis by (simp add: FormatContent_valid [OF i m])
qed

theorem FormatContent_total_witness:
  "\<exists>text. FormatContent ''abcdefghij'' (Some 2) (Some 3) = Inr text"
  using FormatContent_total [of "Some 2" "Some 3" "''abcdefghij''"] by simp

subsection \<open>The start offset\<close>

text \<open>
  For a non-negative start index and a limit that is absent or non-negative, the byte
  offset FormatContent cuts at is the smaller of the start index and \<^verbatim>\<open>len(content)\<close>.
\<close>

lemma FormatContent_start_offset_bytes:
  assumes "0 \<le> i" and "\<forall>m. maxLength = Some m \<longrightarrow> 0 \<le> m"
  shows "\<exists>start. start = min i (int (length content))
           \<and> 0 \<le> start \<and> start \<le> int (length content)
           \<and> FormatContent content (Some i) maxLength = FormatContent content (Some start) maxLength
           \<and> FormatContent content (Some i) None = Inr (drop (nat start) content)
           \<and> (int (length content) \<le> i \<longrightarrow> FormatContent content (Some i) maxLength = Inr [])"
proof -
  let ?n = "int (length content)"
  have clamp: "drop (nat (min i ?n)) content = drop (nat i) content"
    by (cases "i \<le> ?n") (simp_all add: min_def)
  have m: "case maxLength of None \<Rightarrow> True | Some m \<Rightarrow> 0 \<le> m"
    using assms(2) by (simp add: all_Some_case)
  have i: "case Some i of None \<Rightarrow> True | Some i \<Rightarrow> 0 \<le> i"
    and i': "case Some (min i ?n) of None \<Rightarrow> True | Some i \<Rightarrow> 0 \<le> i"
    using assms(1) by simp_all
  have a: "FormatContent content (Some i) maxLength = FormatContent content (Some (min i ?n)) maxLength"
    by (simp add: FormatContent_valid [OF i m] FormatContent_valid [OF i' m] clamp)
  have b: "FormatContent content (Some i) None = Inr (drop (nat (min i ?n)) content)"
    using FormatContent_valid [OF i, of None content] by (simp add: clamp)
  have c: "FormatContent content (Some i) maxLength = Inr []" if "?n \<le> i"
    unfolding FormatContent_valid [OF i m] using that m by (cases maxLength) auto
  from a b c assms(1) show ?thesis by simp
qed

subsection \<open>Length of a truncated result\<close>

text \<open>
  Claim C10, as amended. When the limit is set (and non-negative, the start index being
  absent or non-negative) and the content left after the start offset is longer than the
  limit, the result is the first \<open>maxLength\<close> bytes of that rest followed by the marker,
  which is 59 bytes long: the result has length \<open>maxLength + 59\<close>, strictly more than
  \<open>maxLength\<close>.
\<close>

theorem FormatContent_truncated_length:
  assumes "\<forall>i. startIndex = Some i \<longrightarrow> 0 \<le> i" and "0 \<le> m"
    and "m < int (length (drop (nat (case startIndex of None \<Rightarrow> 0 | Some i \<Rightarrow> i)) content))"
  shows "\<exists>cut. FormatContent content startIndex (Some m) = Inr (cut @ truncation_marker)
           \<and> cut = take (nat m) (drop (nat (case startIndex of None \<Rightarrow> 0 | Some i \<Rightarrow> i)) content)
           \<and> int (length cut) = m
           \<and> length truncation_marker = 59
           \<and> int (length (cut @ truncation_marker)) = m + 59
           \<and> m < int (length (cut @ truncation_marker))"
proof -
  let ?rest = "drop (nat (case startIndex of None \<Rightarrow> 0 | Some i \<Rightarrow> i)) content"
  have i: "case startIndex of None \<Rightarrow> True | Some i \<Rightarrow> 0 \<le> i"
    using assms(1) by (simp add: all_Some_case)
  have m: "case Some m of None \<Rightarrow> True | Some m \<Rightarrow> 0 \<le> m" using assms(2) by simp
  have r: "FormatContent content startIndex (Some m) = Inr (take (nat m) ?rest @ truncation_marker)"
    unfolding FormatContent_valid [OF i m] Let_def using assms(3) by simp
  have l: "int (length (take (nat m) ?rest)) = m"
    using assms(2,3) by (simp add: min_def) linarith
  show ?thesis using r l by (simp add: length_truncation_marker)
qed

theorem FormatContent_truncated_length_witness:
  "\<exists>cut. FormatContent ''abcdefghij'' (Some 0) (Some 5) = Inr (cut @ truncation_marker)
      \<and> cut = ''abcde'' \<and> int (length (cut @ truncation_marker)) = 5 + 59"
  using FormatContent_truncated_length [of "Some 0" 5 "''abcdefghij''"] by simp

text \<open>
  Claim C10 as stated gives the marker 58 characters. It has 59: two line feeds and the
  57 characters of the bracketed sentence.
\<close>

theorem FormatContent_marker_58_counterexample:
  "FormatContent ''abcdefghij'' (Some 0) (Some 5) = Inr (''abcde'' @ truncation_marker)
   \<and> length truncation_marker \<noteq> 58
   \<and> length (''abcde'' @ truncation_marker) \<noteq> 5 + 58"
  by (simp add: FormatContent_def slice_from_def slice_to_def length_truncation_marker)

section \<open>FormatContent and code points\<close>

text \<open>
  Counted in bytes, the whole content is returned when the limit is its length.
\<close>

lemma FormatContent_whole_bytes:
  "FormatContent content (Some 0) (Some (int (length content))) = Inr content"
  by (simp add: FormatContent_def slice_from_def)

text \<open>
  On content whose code points are all below \<open>0x80\<close> a byte is a code point, and
  FormatContent computes what the specification's Paginator does.
\<close>

lemma utf8_ascii:
  assumes "\<forall>cp \<in> set cps. cp < 0x80"
  shows "utf8 cps = map char_of cps"
  using assms by (induction cps) (simp_all add: utf8_def utf8_rune_def)

lemma FormatContent_Slice_ascii:
  assumes ascii: "\<forall>cp \<in> set cps. cp < 0x80"
    and start: "case startIndex of None \<Rightarrow> True | Some i \<Rightarrow> 0 \<le> i"
    and limit: "case maxLength of None \<Rightarrow> True | Some m \<Rightarrow> 0 \<le> m"
  shows "FormatContent (utf8 cps) startIndex maxLength = Inr (Slice cps startIndex maxLength)"
proof -
  let ?s = "case startIndex of None \<Rightarrow> 0 | Some i \<Rightarrow> i"
  let ?c = "case startIndex of None \<Rightarrow> 0 | Some i \<Rightarrow> max 0 (min i (int (length cps)))"
  have u: "utf8 xs = map char_of xs" if "set xs \<subseteq> set cps" for xs
    using that ascii by (intro utf8_ascii) auto
  have d: "drop (nat ?c) cps = drop (nat ?s) cps"
    using start by (cases startIndex) (auto simp: min_def max_def)
  have sub: "set (drop n cps) \<subseteq> set cps" "set (take k (drop n cps)) \<subseteq> set cps" for n k
    by (auto dest: in_set_dropD in_set_takeD)
  show ?thesis
    unfolding FormatContent_valid [OF start limit] Slice_def Let_def d
    by (cases maxLength) (simp_all add: u sub u [OF subset_refl] drop_map take_map)
qed

text \<open>
  Claim C3 says that the start offset and the cut are counted in code points and that no
  multi-byte character is split. FormatContent counts and cuts bytes. The content of the
  one code point U+00E9 is the two bytes \<open>0xC3 0xA9\<close>; with start index 0 and limit 1
  the result is the first of them followed by the marker, where the Paginator of the
  specification returns the whole character and no marker. With start index 2 on the
  content of the code points U+0061 U+00E9 the result is the lone second byte, where the
  specification gives the empty string.
\<close>

theorem FormatContent_splits_code_point:
  "utf8 [0xE9] = [CHR 0xC3, CHR 0xA9]
   \<and> FormatContent (utf8 [0xE9]) (Some 0) (Some 1) = Inr (CHR 0xC3 # truncation_marker)
   \<and> Slice [0xE9] (Some 0) (Some 1) = [CHR 0xC3, CHR 0xA9]
   \<and> FormatContent (utf8 [0x61, 0xE9]) (Some 2) None = Inr [CHR 0xA9]
   \<and> Slice [0x61, 0xE9] (Some 2) None = []"
  by code_simp

text \<open>
  Claim C5 says that the slice from 0 with the limit set to the number of code points of
  the content is the content. For the content of the two code points U+0068 U+00E9, three
  bytes long, FormatContent returns the first two bytes and the marker.
\<close>

theorem FormatContent_code_point_length_truncates:
  "FormatContent (utf8 [0x68, 0xE9]) (Some 0) (Some (int (length [0x68, 0xE9 :: nat])))
     = Inr ([CHR ''h'', CHR 0xC3] @ truncation_marker)
   \<and> FormatContent (utf8 [0x68, 0xE9]) (Some 0) (Some (int (length [0x68, 0xE9 :: nat])))
     \<noteq> Inr (utf8 [0x68, 0xE9])"
  by code_simp

subsection \<open>Clamping of the start index\<close>

text \<open>
  On content of single-byte code points the bytes of the content are as many as its
  code points, and dropping bytes is dropping code points.
\<close>

lemma utf8_ascii_length:
  assumes "\<forall>cp \<in> set cps. cp < 0x80"
  shows "length (utf8 cps) = length cps"
  using assms by (simp add: utf8_ascii)

lemma utf8_ascii_drop:
  assumes "\<forall>cp \<in> set cps. cp < 0x80"
  shows "drop n (utf8 cps) = utf8 (drop n cps)"
proof -
  have "\<forall>cp \<in> set (drop n cps). cp < 0x80"
    using assms by (auto dest: in_set_dropD)
  then show ?thesis
    using assms by (simp add: utf8_ascii drop_map)
qed

text \<open>
  Claim C6, as amended. For every content whose code points are each encoded in one
  byte, every non-negative start index and every limit that is absent or non-negative,
  the offset FormatContent cuts at is \<open>min startIndex (length content)\<close>, which lies in
  \<open>[0, length content]\<close>, the length being the number of code points: the call behaves
  as the call with that offset, it returns what the specification's Paginator returns,
  and without a limit that is the content from that offset on. A start index at or
  beyond the length of the content gives the empty string.
\<close>

theorem FormatContent_start_clamped:
  assumes "\<forall>cp \<in> set content. cp < 0x80"
    and "0 \<le> i"
    and "\<forall>m. maxLength = Some m \<longrightarrow> 0 \<le> m"
  shows "\<exists>start. start = min i (int (length content))
           \<and> 0 \<le> start \<and> start \<le> int (length content)
           \<and> FormatContent (utf8 content) (Some i) maxLength =
               FormatContent (utf8 content) (Some start) maxLength
           \<and> FormatContent (utf8 content) (Some i) maxLength =
               Inr (Slice content (Some i) maxLength)
           \<and> FormatContent (utf8 content) (Some i) None = Inr (utf8 (drop (nat start) content))
           \<and> (int (length content) \<le> i \<longrightarrow>
                FormatContent (utf8 content) (Some i) maxLength = Inr [])"
proof -
  have len: "length (utf8 content) = length content"
    using assms(1) by (rule utf8_ascii_length)
  have m: "case maxLength of None \<Rightarrow> True | Some m \<Rightarrow> 0 \<le> m"
    using assms(3) by (simp add: all_Some_case)
  have i: "case Some i of None \<Rightarrow> True | Some i \<Rightarrow> 0 \<le> i"
    using assms(2) by simp
  obtain start where s: "start = min i (int (length (utf8 content)))"
    and b: "0 \<le> start" "start \<le> int (length (utf8 content))"
    and c: "FormatContent (utf8 content) (Some i) maxLength =
            FormatContent (utf8 content) (Some start) maxLength"
    and d: "FormatContent (utf8 content) (Some i) None = Inr (drop (nat start) (utf8 content))"
    and e: "int (length (utf8 content)) \<le> i \<longrightarrow>
            FormatContent (utf8 content) (Some i) maxLength = Inr []"
    using FormatContent_start_offset_bytes [OF assms(2,3), of "utf8 content"] by blast
  have f: "FormatContent (utf8 content) (Some i) maxLength = Inr (Slice content (Some i) maxLength)"
    using assms(1) i m by (rule FormatContent_Slice_ascii)
  show ?thesis
    using s b c d e f by (simp add: len utf8_ascii_drop [OF assms(1)])
qed

theorem FormatContent_start_clamped_witness:
  "FormatContent (utf8 [0x61, 0x62, 0x63]) (Some 5) (Some 2) = Inr []
   \<and> FormatContent (utf8 [0x61, 0x62, 0x63]) (Some 5) (Some 2) =
       Inr (Slice [0x61, 0x62, 0x63] (Some 5) (Some 2))
   \<and> FormatContent (utf8 [0x61, 0x62, 0x63]) (Some 5) None =
       Inr (utf8 (drop 3 [0x61, 0x62, 0x63]))"
  using FormatContent_start_clamped [of "[0x61, 0x62, 0x63]" 5 "Some 2"]
  by auto

text \<open>
  Claim C6 as stated speaks of every supplied start index. Only the upper bound is
  clamped: a negative start index reaches the slice expression \<^verbatim>\<open>content[start:]\<close>
  unchanged, which panics.
\<close>

theorem FormatContent_negative_start_counterexample:
  "FormatContent ''abc'' (Some (- 1)) None = Inl SliceBoundsOutOfRange"
  by (simp add: FormatContent_def slice_from_def)

subsection \<open>The marker on content that fits\<close>

text \<open>
  Claim C7 says that no marker is appended when the content fits within the limit. The
  content of the two code points U+0061 U+00FC is two characters and three bytes,
  \<open>0x61 0xC3 0xBC\<close>. With the limit 2 it fits, and the Paginator of the specification
  returns it whole; FormatContent compares its three bytes with the limit, cuts it to
  the first two, splitting the second character, and appends the marker.
\<close>

theorem FormatContent_marker_on_fitting_content:
  "int (length [0x61, 0xFC :: nat]) \<le> 2
   \<and> utf8 [0x61, 0xFC] = [CHR 0x61, CHR 0xC3, CHR 0xBC]
   \<and> Slice [0x61, 0xFC] (Some 0) (Some 2) = utf8 [0x61, 0xFC]
   \<and> FormatContent (utf8 [0x61, 0xFC]) (Some 0) (Some 2) =
       Inr ([CHR 0x61, CHR 0xC3] @ truncation_marker)"
  by code_simp

section \<open>Properties of ProcessHTML\<close>

text \<open>
  When readability has produced a non-empty extract and its conversion to Markdown
  fails, what is returned is the extract.
\<close>

lemma ProcessHTML_extract_not_converted:
  assumes "html_Parse P htmlContent = Inr doc"
    and "readability_FromDocument P doc = Inr article_Content"
    and "article_Content \<noteq> []"
    and "htmltomarkdown_ConvertString P article_Content = Inl err"
  shows "ProcessHTML P htmlContent = article_Content"
  using assms by (simp add: ProcessHTML_def)

section \<open>Properties of the fetcher\<close>

text \<open>
  What fetchURL returns after a response: the status error for a status other than 200,
  and for a 200 response with a readable body either the transformed or the unmodified
  body.
\<close>

lemma fetchURL_error_no_content:
  "fetchURL P f url raw = ((content, Some err), events) \<Longrightarrow> content = []"
  unfolding fetchURL_def Let_def
  by (simp split: option.splits sum.splits if_splits)

lemma fetchURL_non_200:
  assumes "NewRequest_error (httpClient f) url = None"
    and "Do (httpClient f) (content_request f url) = Inr resp"
    and "StatusCode resp \<noteq> 200"
  shows "fetchURL P f url raw =
     (([], Some (HTTPStatus (StatusCode resp) (Status resp))), [HTTPDo (content_request f url)])"
  using assms by (simp add: fetchURL_def Let_def)

lemma fetchURL_200:
  assumes "NewRequest_error (httpClient f) url = None"
    and "Do (httpClient f) (content_request f url) = Inr resp"
    and "StatusCode resp = 200"
    and "Body resp = Inr body"
  shows "fetchURL P f url raw =
     (if \<not> raw \<and> Contains (ContentType resp) ''text/html''
      then ((ProcessHTML P body, None), [HTTPDo (content_request f url), HTMLProcessed body])
      else ((body, None), [HTTPDo (content_request f url)]))"
  using assms by (simp add: fetchURL_def Let_def)

text \<open>
  FetchURL by cases: refused by the robots check, failed in fetchURL, panicked in
  FormatContent, or formatted.
\<close>

lemma FetchURL_disallowed:
  "\<not> IsAllowed (robotsChecker f) (URL req) \<Longrightarrow>
     FetchURL P f req = (Inr ([], Some (RobotsDisallowed (URL req))), [])"
  by (simp add: FetchURL_def)

lemma FetchURL_allowed:
  "IsAllowed (robotsChecker f) (URL req) \<Longrightarrow>
     FetchURL P f req =
       (case fetchURL P f (URL req) (Raw req) of
           ((content, Some err), events) \<Rightarrow> (Inr ([], Some err), events)
         | ((content, None), events) \<Rightarrow>
             (case FormatContent content (StartIndex req) (MaxLength req) of
                Inl p \<Rightarrow> (Inl p, events)
              | Inr formattedContent \<Rightarrow> (Inr (formattedContent, None), events)))"
  by (simp add: FetchURL_def)

lemma FetchURL_events:
  "IsAllowed (robotsChecker f) (URL req) \<Longrightarrow>
     snd (FetchURL P f req) = snd (fetchURL P f (URL req) (Raw req))"
  unfolding FetchURL_allowed
  by (cases "fetchURL P f (URL req) (Raw req)" rule: prod.exhaust)
     (auto split: prod.splits option.splits sum.splits)

lemma FetchURL_cases:
  obtains (disallowed) "\<not> IsAllowed (robotsChecker f) (URL req)"
      "FetchURL P f req = (Inr ([], Some (RobotsDisallowed (URL req))), [])"
  | (failed) content err events where "IsAllowed (robotsChecker f) (URL req)"
      "fetchURL P f (URL req) (Raw req) = ((content, Some err), events)"
      "FetchURL P f req = (Inr ([], Some err), events)"
  | (panicked) content events p where "IsAllowed (robotsChecker f) (URL req)"
      "fetchURL P f (URL req) (Raw req) = ((content, None), events)"
      "FormatContent content (StartIndex req) (MaxLength req) = Inl p"
      "FetchURL P f req = (Inl p, events)"
  | (formatted) content events formattedContent where "IsAllowed (robotsChecker f) (URL req)"
      "fetchURL P f (URL req) (Raw req) = ((content, None), events)"
      "FormatContent content (StartIndex req) (MaxLength req) = Inr formattedContent"
      "FetchURL P f req = (Inr (formattedContent, None), events)"
proof (cases "IsAllowed (robotsChecker f) (URL req)")
  case False
  then show ?thesis using disallowed FetchURL_disallowed by blast
next
  case True
  obtain content e events where r: "fetchURL P f (URL req) (Raw req) = ((content, e), events)"
    by (metis surj_pair)
  show ?thesis
  proof (cases e)
    case (Some err)
    with r True show ?thesis using failed by (simp add: FetchURL_allowed)
  next
    case None
    show ?thesis
    proof (cases "FormatContent content (StartIndex req) (MaxLength req)")
      case (Inl p)
      with r True None show ?thesis using panicked by (simp add: FetchURL_allowed)
    next
      case (Inr formattedContent)
      with r True None show ?thesis using formatted by (simp add: FetchURL_allowed)
    qed
  qed
qed

subsection \<open>The robots gate\<close>

text \<open>
  Claim C1. When the robots checker reports the URL of a request as disallowed, FetchURL
  returns the robots error with no content and no event: \<^verbatim>\<open>httpClient.Do\<close> is never
  called for the content. When the checker is configured to ignore robots.txt, every URL
  is allowed, and the events of FetchURL are those of fetchURL.
\<close>

theorem FetchURL_robots_gate:
  "(\<not> IsAllowed (robotsChecker f) (URL req) \<longrightarrow>
      FetchURL P f req = (Inr ([], Some (RobotsDisallowed (URL req))), []))
   \<and> (ignoreRobots (robotsChecker f) \<longrightarrow>
        IsAllowed (robotsChecker f) (URL req)
        \<and> snd (FetchURL P f req) = snd (fetchURL P f (URL req) (Raw req)))"
proof (intro conjI impI)
  assume "\<not> IsAllowed (robotsChecker f) (URL req)"
  then show "FetchURL P f req = (Inr ([], Some (RobotsDisallowed (URL req))), [])"
    by (rule FetchURL_disallowed)
next
  assume "ignoreRobots (robotsChecker f)"
  then show a: "IsAllowed (robotsChecker f) (URL req)"
    by (simp add: IsAllowed_def)
  then show "snd (FetchURL P f req) = snd (fetchURL P f (URL req) (Raw req))"
    by (rule FetchURL_events)
qed

text \<open>
  The URL \<^verbatim>\<open>https://example.com/private/page\<close> under a policy that disallows
  \<^verbatim>\<open>/private\<close>, without and with the bypass flag.
\<close>

theorem FetchURL_robots_gate_witness:
  "FetchURL packages_ok (fetcher_answering False (response_200 ''text/html'' ''<p>secret</p>''))
      (request_for ''https://example.com/private/page'' False)
     = (Inr ([], Some (RobotsDisallowed ''https://example.com/private/page'')), [])
   \<and> IsAllowed (robotsChecker (fetcher_answering True (response_200 ''text/html'' ''<p>secret</p>'')))
        ''https://example.com/private/page''"
  using FetchURL_robots_gate [of "fetcher_answering False (response_200 ''text/html'' ''<p>secret</p>'')"
      "request_for ''https://example.com/private/page'' False" packages_ok]
    FetchURL_robots_gate [of "fetcher_answering True (response_200 ''text/html'' ''<p>secret</p>'')"
      "request_for ''https://example.com/private/page'' False" packages_ok]
  by (simp add: fetcher_answering_def request_for_def IsAllowed_def no_private_def HasPrefix_def)

subsection \<open>Content or error\<close>

text \<open>
  Claim C2, as amended. Whenever FetchURL returns an error, the string it returns with
  it is empty, for every request. For a request whose start index is absent or
  non-negative and whose limit is absent or non-negative, FetchURL returns: either
  content and the nil error, or the empty string and an error. A response whose status
  code is not 200 gives the empty string and the error \<^verbatim>\<open>"HTTP <code>: <status>"\<close>,
  which carries the status code.
\<close>

theorem FetchURL_content_or_error:
  "(\<forall>content err events.
      FetchURL P f req = (Inr (content, Some err), events) \<longrightarrow> content = [])
   \<and> ((\<forall>i. StartIndex req = Some i \<longrightarrow> 0 \<le> i) \<and> (\<forall>m. MaxLength req = Some m \<longrightarrow> 0 \<le> m) \<longrightarrow>
        (\<exists>content events. FetchURL P f req = (Inr (content, None), events))
        \<or> (\<exists>err events. FetchURL P f req = (Inr ([], Some err), events)))
   \<and> (IsAllowed (robotsChecker f) (URL req)
        \<and> NewRequest_error (httpClient f) (URL req) = None
        \<and> Do (httpClient f) (content_request f (URL req)) = Inr resp
        \<and> StatusCode resp \<noteq> 200 \<longrightarrow>
        FetchURL P f req =
          (Inr ([], Some (HTTPStatus (StatusCode resp) (Status resp))),
           [HTTPDo (content_request f (URL req))])
        \<and> Error (HTTPStatus (StatusCode resp) (Status resp)) =
            ''HTTP '' @ Itoa (StatusCode resp) @ '': '' @ Status resp)"
proof (intro conjI allI impI)
  fix content err events
  assume "FetchURL P f req = (Inr (content, Some err), events)"
  then show "content = []"
    by (cases P f req rule: FetchURL_cases) simp_all
next
  assume v: "(\<forall>i. StartIndex req = Some i \<longrightarrow> 0 \<le> i) \<and> (\<forall>m. MaxLength req = Some m \<longrightarrow> 0 \<le> m)"
  have i: "case StartIndex req of None \<Rightarrow> True | Some i \<Rightarrow> 0 \<le> i"
    using v by (simp add: all_Some_case)
  have m: "case MaxLength req of None \<Rightarrow> True | Some m \<Rightarrow> 0 \<le> m"
    using v by (simp add: all_Some_case)
  show "(\<exists>content events. FetchURL P f req = (Inr (content, None), events))
        \<or> (\<exists>err events. FetchURL P f req = (Inr ([], Some err), events))"
  proof (cases P f req rule: FetchURL_cases)
    case (panicked content events p)
    then show ?thesis by (simp add: FormatContent_valid [OF i m])
  qed blast+
next
  assume a: "IsAllowed (robotsChecker f) (URL req)
        \<and> NewRequest_error (httpClient f) (URL req) = None
        \<and> Do (httpClient f) (content_request f (URL req)) = Inr resp
        \<and> StatusCode resp \<noteq> 200"
  then have "fetchURL P f (URL req) (Raw req) =
     (([], Some (HTTPStatus (StatusCode resp) (Status resp))), [HTTPDo (content_request f (URL req))])"
    by (simp add: fetchURL_non_200)
  with a show "FetchURL P f req =
          (Inr ([], Some (HTTPStatus (StatusCode resp) (Status resp))),
           [HTTPDo (content_request f (URL req))])"
    by (simp add: FetchURL_allowed)
next
  show "Error (HTTPStatus (StatusCode resp) (Status resp)) =
            ''HTTP '' @ Itoa (StatusCode resp) @ '': '' @ Status resp"
    by simp
qed


theorem FetchURL_content_or_error_witness:
  "FetchURL packages_ok (fetcher_answering False response_404)
      (request_for ''https://example.com/missing'' False)
     = (Inr ([], Some (HTTPStatus 404 ''404 Not Found'')),
        [HTTPDo (content_request (fetcher_answering False response_404)
                   ''https://example.com/missing'')])
   \<and> Error (HTTPStatus 404 ''404 Not Found'') = ''HTTP 404: 404 Not Found''"
proof -
  have e: "Itoa 404 = ''404''" by code_simp
  show ?thesis
    using FetchURL_content_or_error [of packages_ok "fetcher_answering False response_404"
        "request_for ''https://example.com/missing'' False" response_404]
    by (simp add: fetcher_answering_def request_for_def response_404_def IsAllowed_def
        no_private_def HasPrefix_def e)
qed

text \<open>
  Claim C2 as stated speaks of every fetch request. The start index and the limit of a
  request are passed on as received; when one of them is negative and the fetch has
  succeeded, FormatContent panics, and FetchURL yields neither content nor an error.
\<close>

theorem FetchURL_negative_index_counterexample:
  "FetchURL packages_ok (fetcher_answering True (response_200 ''text/plain'' ''hello''))
      \<lparr>URL = ''https://example.com/'', MaxLength = None, StartIndex = Some (- 1), Raw = False\<rparr>
     = (Inl SliceBoundsOutOfRange,
        [HTTPDo (content_request (fetcher_answering True (response_200 ''text/plain'' ''hello''))
                   ''https://example.com/'')])
   \<and> FetchURL packages_ok (fetcher_answering True (response_200 ''text/plain'' ''hello''))
      \<lparr>URL = ''https://example.com/'', MaxLength = Some (- 1), StartIndex = None, Raw = False\<rparr>
     = (Inl SliceBoundsOutOfRange,
        [HTTPDo (content_request (fetcher_answering True (response_200 ''text/plain'' ''hello''))
                   ''https://example.com/'')])"
proof -
  have c: "\<not> Contains ''text/plain'' ''text/html''" by code_simp
  show ?thesis
    using c
    by (simp add: FetchURL_def fetchURL_def IsAllowed_def fetcher_answering_def response_200_def
        FormatContent_def slice_from_def slice_to_def Let_def)
qed

subsection \<open>Raw mode and other content types\<close>

text \<open>
  Claim C9. After a 200 response whose body was read, when the request is raw or the
  content type does not contain \<^verbatim>\<open>text/html\<close>, fetchURL returns the body unmodified
  and ProcessHTML is not called, whatever the content type and the HTML packages are.
  FetchURL then returns that body as FormatContent paginates it, and the body itself
  when neither start index nor limit is given.
\<close>

theorem fetchURL_raw_passthrough:
  assumes "NewRequest_error (httpClient f) url = None"
    and "Do (httpClient f) (content_request f url) = Inr resp"
    and "StatusCode resp = 200"
    and "Body resp = Inr body"
    and "raw \<or> \<not> Contains (ContentType resp) ''text/html''"
  shows "fetchURL P f url raw = ((body, None), [HTTPDo (content_request f url)])
    \<and> (IsAllowed (robotsChecker f) url \<longrightarrow>
         FetchURL P f \<lparr>URL = url, MaxLength = maxLength, StartIndex = startIndex, Raw = raw\<rparr> =
           (case FormatContent body startIndex maxLength of
              Inl p \<Rightarrow> (Inl p, [HTTPDo (content_request f url)])
            | Inr formattedContent \<Rightarrow>
                (Inr (formattedContent, None), [HTTPDo (content_request f url)]))
         \<and> FetchURL P f \<lparr>URL = url, MaxLength = None, StartIndex = None, Raw = raw\<rparr> =
             (Inr (body, None), [HTTPDo (content_request f url)]))"
proof -
  have r: "fetchURL P f url raw = ((body, None), [HTTPDo (content_request f url)])"
    using assms by (auto simp: fetchURL_200)
  have n: "FormatContent body None None = Inr body"
    by (simp add: FormatContent_def slice_from_def)
  show ?thesis using r n by (simp add: FetchURL_allowed)
qed

theorem fetchURL_raw_passthrough_witness:
  "fetchURL packages_ok (fetcher_answering True (response_200 ''text/html; charset=utf-8'' ''<h1>Title</h1>''))
      ''https://example.com/'' True
     = ((''<h1>Title</h1>'', None),
        [HTTPDo (content_request (fetcher_answering True (response_200 ''text/html; charset=utf-8'' ''<h1>Title</h1>''))
                   ''https://example.com/'')])
   \<and> fetchURL packages_ok (fetcher_answering True (response_200 ''application/json'' ''{}''))
      ''https://example.com/'' False
     = ((''{}'', None),
        [HTTPDo (content_request (fetcher_answering True (response_200 ''application/json'' ''{}''))
                   ''https://example.com/'')])"
proof -
  have c: "\<not> Contains ''application/json'' ''text/html''" by code_simp
  show ?thesis
    using fetchURL_raw_passthrough [of "fetcher_answering True (response_200 ''text/html; charset=utf-8'' ''<h1>Title</h1>'')"
        "''https://example.com/''" "response_200 ''text/html; charset=utf-8'' ''<h1>Title</h1>''"
        "''<h1>Title</h1>''" True packages_ok]
      fetchURL_raw_passthrough [of "fetcher_answering True (response_200 ''application/json'' ''{}'')"
        "''https://example.com/''" "response_200 ''application/json'' ''{}''"
        "''{}''" False packages_ok]
      c
    by (simp add: fetcher_answering_def response_200_def)
qed

subsection \<open>Failures of the transformer\<close>

text \<open>
  Claim C4, as amended. When HTML parsing fails, ProcessHTML returns the original HTML
  unchanged. When readability fails or yields empty content, the original HTML is what
  is converted: the result is its Markdown, or the original HTML unchanged when that
  conversion fails. ProcessHTML returns no error, so that after a 200 response whose
  body was read fetchURL returns content and the nil error, whatever the HTML packages
  do.
\<close>

theorem ProcessHTML_fallback:
  "(html_Parse P htmlContent = Inl err \<longrightarrow> ProcessHTML P htmlContent = htmlContent)
   \<and> (html_Parse P htmlContent = Inr doc
        \<and> (readability_FromDocument P doc = Inl err' \<or> readability_FromDocument P doc = Inr [])
        \<longrightarrow> ProcessHTML P htmlContent =
              (case htmltomarkdown_ConvertString P htmlContent of
                 Inl err'' \<Rightarrow> htmlContent
               | Inr markdown \<Rightarrow> markdown))
   \<and> (NewRequest_error (httpClient f) url = None
        \<and> Do (httpClient f) (content_request f url) = Inr resp
        \<and> StatusCode resp = 200
        \<and> Body resp = Inr body
        \<longrightarrow> (\<exists>content events. fetchURL P f url raw = ((content, None), events)))"
proof (intro conjI impI)
  assume "html_Parse P htmlContent = Inl err"
  then show "ProcessHTML P htmlContent = htmlContent"
    by (simp add: ProcessHTML_def)
next
  assume "html_Parse P htmlContent = Inr doc
        \<and> (readability_FromDocument P doc = Inl err' \<or> readability_FromDocument P doc = Inr [])"
  then show "ProcessHTML P htmlContent =
              (case htmltomarkdown_ConvertString P htmlContent of
                 Inl err'' \<Rightarrow> htmlContent
               | Inr markdown \<Rightarrow> markdown)"
    by (auto simp: ProcessHTML_def)
next
  assume "NewRequest_error (httpClient f) url = None
        \<and> Do (httpClient f) (content_request f url) = Inr resp
        \<and> StatusCode resp = 200
        \<and> Body resp = Inr body"
  then show "\<exists>content events. fetchURL P f url raw = ((content, None), events)"
    by (simp add: fetchURL_200)
qed

theorem ProcessHTML_fallback_witness:
  "ProcessHTML packages_parse_fails ''<h1>Title</h1>'' = ''<h1>Title</h1>''
   \<and> ProcessHTML packages_all_fail ''<h1>Title</h1>'' = ''<h1>Title</h1>''
   \<and> (\<exists>content events.
        fetchURL packages_all_fail (fetcher_answering True (response_200 ''text/html'' ''<h1>Title</h1>''))
          ''https://example.com/'' False = ((content, None), events))"
  using ProcessHTML_fallback [of packages_parse_fails "''<h1>Title</h1>''" "''unexpected EOF''"]
    ProcessHTML_fallback [of packages_all_fail "''<h1>Title</h1>''" _ "''<h1>Title</h1>''"
      "''failed to parse document''"
      "fetcher_answering True (response_200 ''text/html'' ''<h1>Title</h1>'')"
      "''https://example.com/''" "response_200 ''text/html'' ''<h1>Title</h1>''"
      "''<h1>Title</h1>''" False]
  by (simp add: packages_parse_fails_def packages_all_fail_def packages_readability_fails_def
      packages_ok_def fetcher_answering_def response_200_def)

text \<open>
  Claim C4 as stated counts a failure of readability among those that give back the
  original HTML. After such a failure the document is still converted, and the Markdown
  is returned.
\<close>

theorem ProcessHTML_readability_failure_counterexample:
  "html_Parse packages_readability_fails ''<h1>Title</h1><p>Body text</p>''
     = Inr ''<h1>Title</h1><p>Body text</p>''
   \<and> readability_FromDocument packages_readability_fails ''<h1>Title</h1><p>Body text</p>''
     = Inl ''failed to parse document''
   \<and> ProcessHTML packages_readability_fails ''<h1>Title</h1><p>Body text</p>'' = ''Body text''
   \<and> ProcessHTML packages_readability_fails ''<h1>Title</h1><p>Body text</p>''
     \<noteq> ''<h1>Title</h1><p>Body text</p>''"
  by (simp add: ProcessHTML_def packages_readability_fails_def packages_ok_def)

end
